theory Spec2Isabelle
  imports Complex_Main "HOL-Library.Sublist"
begin

section \<open>The chunked media transfer engine of \<^verbatim>\<open>core/actions/message-media.ts\<close>\<close>

text \<open>
  The module is asynchronous JavaScript over a shared store. Each \<^verbatim>\<open>async\<close> function is
  embedded as a function that takes the store and a \<^emph>\<open>script\<close>: for every \<^verbatim>\<open>await\<close> the script
  says how the awaited promise settles and what every other activity of the application did
  to the store while the function was suspended (an arbitrary function on the store). A
  script that ends before the function does is a promise that never settles: the function
  stays suspended there. Every function returns how it ended, the store it leaves, and the
  list, in order, of the effectful calls it made (to the transport, the cache, the message
  actions and this module's own store writers).

  JavaScript numbers are embedded as unbounded integers where the code counts parts and as
  exact reals inside \<^verbatim>\<open>Math.round\<close> and \<^verbatim>\<open>Math.ceil\<close>; \<^verbatim>\<open>undefined\<close> is \<open>None\<close>.
\<close>

subsection \<open>JavaScript values\<close>

type_synonym bytes = "nat list"

text \<open>Truthiness of \<^verbatim>\<open>string | undefined\<close>: the empty string is falsy.\<close>

definition truthy :: "string option \<Rightarrow> bool" where
  "truthy v = (case v of None \<Rightarrow> False | Some s \<Rightarrow> s \<noteq> [])"

text \<open>Truthiness of \<^verbatim>\<open>number | undefined\<close>: zero is falsy.\<close>

definition truthyNum :: "int option \<Rightarrow> bool" where
  "truthyNum v = (case v of None \<Rightarrow> False | Some n \<Rightarrow> n \<noteq> 0)"

text \<open>\<^verbatim>\<open>Math.round\<close> rounds to the nearest integer, a tie towards plus infinity.\<close>

definition Math_round :: "real \<Rightarrow> int" where
  "Math_round r = \<lfloor>r + 1 / 2\<rfloor>"

definition Math_ceil :: "real \<Rightarrow> int" where
  "Math_ceil r = \<lceil>r\<rceil>"

text \<open>How an awaited promise settles.\<close>

datatype 'a settled = Resolved 'a | Rejected string

text \<open>How an \<^verbatim>\<open>async\<close> function ends: it returns, it throws (its promise rejects), or it
  stays suspended at an \<^verbatim>\<open>await\<close> that never settles.\<close>

datatype 'a outcome = Returned 'a | Threw string | Pending

text \<open>How a part loop is left: by running to its bound, by a \<^verbatim>\<open>return\<close> inside the
  loop, by an exception, or never.\<close>

datatype loop_exit = Completed | Aborted | Raised string | Suspended

subsection \<open>Collaborators outside this module\<close>

text \<open>
  Modelled from the spec: \<^verbatim>\<open>generateFileKey\<close>, \<^verbatim>\<open>FILE_SIZE.KB512\<close>, \<^verbatim>\<open>transferBytesToFile\<close> and
  \<^verbatim>\<open>generateFileMessageMark\<close> are imported from \<^verbatim>\<open>~/tools/handle-file\<close>, \<^verbatim>\<open>~/core/cache\<close> and
  \<^verbatim>\<open>~/tools/handle-content\<close>, whose sources are not part of the module. The spec fixes that
  the file key is a deterministic function of \<open>(id, size[, sizeType])\<close>; nothing else is
  assumed about them, so they are parameters of the model.
\<close>

record Ext =
  fileKeyFrom :: "string \<Rightarrow> int \<Rightarrow> string option \<Rightarrow> string"
  KB512 :: int
  transferBytesToFile :: "string \<Rightarrow> string \<Rightarrow> string option"
  generateFileMessageMark :: "int \<Rightarrow> string"

record Folder =
  id_folder :: int

subsection \<open>Uploads: \<^verbatim>\<open>uploadFiles\<close>, \<^verbatim>\<open>uploadFile\<close>, \<^verbatim>\<open>checkIsUploading\<close>, \<^verbatim>\<open>onUploadPart\<close>\<close>

record InputFile =
  fileKey :: "string option"
  thumbFileKey :: "string option"
  progress :: "int option"
  w :: "int option"
  h :: "int option"
  duration :: "int option"

record InputMessage =
  inputFiles :: "InputFile list option"

text \<open>The metadata \<^verbatim>\<open>getFileMeta\<close> returns is only handed on to the transport.\<close>

type_synonym FileMeta = string

record FileInfo =
  fileId :: string
  fileName :: string
  fileType :: string
  isLarge :: bool
  partsCount :: int

text \<open>What \<^verbatim>\<open>api.prepareUploadingFile\<close> resolves to.\<close>

record FileParams = FileInfo +
  partSize :: int
  lastPartSize :: int

text \<open>What \<^verbatim>\<open>uploadFile\<close> returns for a file it has sent.\<close>

record UploadedFile = FileInfo +
  imageParams :: "(int \<times> int) option"
  videoParams :: "(int \<times> int \<times> int) option"
  thumb :: "FileInfo option"

text \<open>
  Modelled from the spec: \<^verbatim>\<open>getSendingMessage\<close> and \<^verbatim>\<open>setSendingMessage\<close> (from
  \<^verbatim>\<open>./messages\<close>) read and write the outbound message of a folder; the pending messages are a
  map from the folder id.
\<close>

type_synonym SendingMessages = "int \<rightharpoonup> InputMessage"

definition getSendingMessage :: "SendingMessages \<Rightarrow> int \<Rightarrow> InputMessage option" where
  "getSendingMessage s folderId = s folderId"

definition setSendingMessage :: "int \<Rightarrow> InputMessage \<Rightarrow> SendingMessages \<Rightarrow> SendingMessages" where
  "setSendingMessage folderId message s = s(folderId \<mapsto> message)"

text \<open>The effectful calls of the upload pipeline, in the order they are made.\<close>

datatype upload_event =
    PrepareUploadingFile FileMeta
  | GetFilePart string int int
  | UploadFilePart FileParams int bytes
  | OnUploadPart string int
  | DeleteFile string
  | CreateMessage string UploadedFile Folder bool

definition checkIsUploading :: "SendingMessages \<Rightarrow> Folder \<Rightarrow> string \<Rightarrow> bool" where
  "checkIsUploading s folder key =
     (case getSendingMessage s (id_folder folder) of
        None \<Rightarrow> False
      | Some sendingMessage \<Rightarrow>
          (case inputFiles sendingMessage of
             None \<Rightarrow> False
           | Some files \<Rightarrow>
               list_ex (\<lambda>inputFile. fileKey inputFile = Some key \<or> thumbFileKey inputFile = Some key)
                 files))"

definition onUploadPart :: "SendingMessages \<Rightarrow> Folder \<Rightarrow> string \<Rightarrow> int \<Rightarrow> SendingMessages" where
  "onUploadPart s folder key prog =
     (case getSendingMessage s (id_folder folder) of
        None \<Rightarrow> s
      | Some sendingMessage \<Rightarrow>
          setSendingMessage (id_folder folder)
            (sendingMessage\<lparr>inputFiles :=
               map_option
                 (map (\<lambda>inputFile.
                    if fileKey inputFile = Some key then inputFile\<lparr>progress := Some prog\<rparr>
                    else inputFile))
                 (inputFiles sendingMessage)\<rparr>)
            s)"

text \<open>The progress \<^verbatim>\<open>Math.round((part + 1) / partsCount * 100)\<close> of both part loops, in
  exact arithmetic. (The rounding of the quotient and the product to doubles can only
  matter where the exact value is a tie \<open>k + 1/2\<close>; it keeps the order of the values.)\<close>

definition partProgress :: "int \<Rightarrow> int \<Rightarrow> int" where
  "partProgress part count = Math_round (real_of_int (part + 1) / real_of_int count * 100)"

text \<open>One iteration's two awaits: \<^verbatim>\<open>transformToBytes\<close> and \<^verbatim>\<open>api.uploadFilePart\<close>.\<close>

record PartReply =
  bytesDuring :: "SendingMessages \<Rightarrow> SendingMessages"
  filePartBytes :: "bytes option"
  uploadDuring :: "SendingMessages \<Rightarrow> SendingMessages"
  uploaded :: "unit settled"

text \<open>The loop \<^verbatim>\<open>for (let part = 0; part < partsCount; part++)\<close> of \<^verbatim>\<open>uploadFile\<close>.\<close>

fun uploadParts ::
  "Folder \<Rightarrow> string \<Rightarrow> bool \<Rightarrow> FileParams \<Rightarrow> int \<Rightarrow> PartReply list \<Rightarrow> SendingMessages
    \<Rightarrow> loop_exit \<times> SendingMessages \<times> upload_event list" where
  "uploadParts folder key isMainFile fileParams part replies s =
     (if \<not> part < partsCount fileParams then (Completed, s, [])
      else if \<not> checkIsUploading s folder key then (Aborted, s, [])
      else
        let isLastPart = (part = partsCount fileParams - 1);
            start = part * partSize fileParams;
            stop = part * partSize fileParams
                     + (if isLastPart then lastPartSize fileParams else partSize fileParams);
            reading = GetFilePart key start stop
        in
          (case replies of
             [] \<Rightarrow> (Suspended, s, [reading])
           | r # rest \<Rightarrow>
               (case filePartBytes r of
                  None \<Rightarrow> (Aborted, bytesDuring r s, [reading])
                | Some filePartBytes' \<Rightarrow>
                    let sending = UploadFilePart fileParams part filePartBytes';
                        s2 = uploadDuring r (bytesDuring r s)
                    in
                      (case uploaded r of
                         Rejected message \<Rightarrow> (Raised message, s2, [reading, sending])
                       | Resolved _ \<Rightarrow>
                           let prog = partProgress part (partsCount fileParams);
                               s3 = (if isMainFile then onUploadPart s2 folder key prog else s2);
                               noted = (if isMainFile then [OnUploadPart key prog] else [])
                           in
                             (case uploadParts folder key isMainFile fileParams (part + 1) rest s3 of
                                (exit, s4, events) \<Rightarrow>
                                  (exit, s4, [reading, sending] @ noted @ events))))))"

text \<open>What the cache and the transport answer for one key before its part loop.\<close>

record KeyScript =
  fileMeta :: "FileMeta option"
  prepareDuring :: "SendingMessages \<Rightarrow> SendingMessages"
  prepared :: "FileParams settled option"
  parts :: "PartReply list"

text \<open>The callback \<^verbatim>\<open>uploadFile\<close> maps over \<^verbatim>\<open>[inputFile.fileKey, inputFile.thumbFileKey]\<close>.\<close>

definition uploadKey ::
  "Folder \<Rightarrow> InputFile \<Rightarrow> string option \<Rightarrow> KeyScript \<Rightarrow> SendingMessages
    \<Rightarrow> FileParams option outcome \<times> SendingMessages \<times> upload_event list" where
  "uploadKey folder inputFile key' script s =
     (case key' of
        None \<Rightarrow> (Returned None, s, [])
      | Some key \<Rightarrow>
          if key = [] then (Returned None, s, [])
          else
            let isMainFile = (fileKey inputFile = Some key) in
              (case fileMeta script of
                 None \<Rightarrow> (Returned None, s, [])
               | Some meta \<Rightarrow>
                   if \<not> checkIsUploading s folder key then (Returned None, s, [])
                   else
                     (case prepared script of
                        None \<Rightarrow> (Pending, s, [PrepareUploadingFile meta])
                      | Some (Rejected message) \<Rightarrow>
                          (Threw message, prepareDuring script s, [PrepareUploadingFile meta])
                      | Some (Resolved fileParams) \<Rightarrow>
                          (case uploadParts folder key isMainFile fileParams 0 (parts script)
                                  (prepareDuring script s) of
                             (Completed, s2, events) \<Rightarrow>
                               (Returned (Some fileParams), s2,
                                PrepareUploadingFile meta # events @ [DeleteFile key])
                           | (Aborted, s2, events) \<Rightarrow>
                               (Returned None, s2, PrepareUploadingFile meta # events)
                           | (Raised message, s2, events) \<Rightarrow>
                               (Threw message, s2, PrepareUploadingFile meta # events)
                           | (Suspended, s2, events) \<Rightarrow>
                               (Pending, s2, PrepareUploadingFile meta # events)))))"

text \<open>
  \<^verbatim>\<open>uploadFile\<close>. The two callbacks of \<^verbatim>\<open>Promise.all\<close> run interleaved; the model runs the
  main key first and the thumbnail key second. Whatever the main upload or anything else
  does to the pending messages while the thumbnail upload is suspended is part of the
  thumbnail script's interference, so every sequence of stores the thumbnail upload can
  observe is a script of the model; only the relative order of the two uploads' calls in
  the list of calls is lost.
\<close>

definition uploadedFile :: "InputFile \<Rightarrow> FileParams \<Rightarrow> FileParams option \<Rightarrow> UploadedFile" where
  "uploadedFile inputFile mainFileParams thumbFileParams =
     \<lparr>fileId = fileId mainFileParams,
      fileName = fileName mainFileParams,
      fileType = fileType mainFileParams,
      isLarge = isLarge mainFileParams,
      partsCount = partsCount mainFileParams,
      imageParams =
        (case (w inputFile, h inputFile) of
           (Some w', Some h') \<Rightarrow>
             if w' \<noteq> 0 \<and> h' \<noteq> 0 \<and> \<not> truthyNum (duration inputFile) then Some (w', h') else None
         | _ \<Rightarrow> None),
      videoParams =
        (case (w inputFile, h inputFile, duration inputFile) of
           (Some w', Some h', Some duration') \<Rightarrow>
             if w' \<noteq> 0 \<and> h' \<noteq> 0 \<and> duration' \<noteq> 0 then Some (w', h', duration') else None
         | _ \<Rightarrow> None),
      thumb =
        map_option
          (\<lambda>t. \<lparr>fileId = fileId t, fileName = fileName t, fileType = fileType t,
                isLarge = isLarge t, partsCount = partsCount t\<rparr>)
          thumbFileParams\<rparr>"

text \<open>\<^verbatim>\<open>Promise.all\<close> of the two callbacks: a rejection wins, then a promise that never
  settles; otherwise \<^verbatim>\<open>uploadFile\<close> goes on with both results.\<close>

definition uploadFile ::
  "Folder \<Rightarrow> InputFile \<Rightarrow> KeyScript \<Rightarrow> KeyScript \<Rightarrow> SendingMessages
    \<Rightarrow> UploadedFile option outcome \<times> SendingMessages \<times> upload_event list" where
  "uploadFile folder inputFile mainScript thumbScript s =
     (if \<not> truthy (fileKey inputFile) then (Returned None, s, [])
      else
        (case uploadKey folder inputFile (fileKey inputFile) mainScript s of
           (mainResult, s1, mainEvents) \<Rightarrow>
             (case uploadKey folder inputFile (thumbFileKey inputFile) thumbScript s1 of
                (thumbResult, s2, thumbEvents) \<Rightarrow>
                  ((case (mainResult, thumbResult) of
                      (Threw message, _) \<Rightarrow> Threw message
                    | (_, Threw message) \<Rightarrow> Threw message
                    | (Pending, _) \<Rightarrow> Pending
                    | (_, Pending) \<Rightarrow> Pending
                    | (Returned None, Returned _) \<Rightarrow> Returned None
                    | (Returned (Some mainFileParams), Returned thumbFileParams) \<Rightarrow>
                        Returned (Some (uploadedFile inputFile mainFileParams thumbFileParams))),
                   s2, mainEvents @ thumbEvents))))"

text \<open>What the environment answers while one file of the batch is sent: the scripts of
  its two keys and how \<^verbatim>\<open>createMessage\<close> settles (\<open>None\<close>: never).\<close>

record FileScript =
  mainScript :: KeyScript
  thumbScript :: KeyScript
  createDuring :: "SendingMessages \<Rightarrow> SendingMessages"
  created :: "bool settled option"

text \<open>The pending message without a file that has been sent:
  \<^verbatim>\<open>{...sendingMessage, inputFiles: sendingMessage.inputFiles?.filter(...)}\<close>.\<close>

definition withoutFile :: "InputFile \<Rightarrow> InputMessage \<Rightarrow> InputMessage" where
  "withoutFile inputFile sendingMessage =
     sendingMessage\<lparr>inputFiles :=
       map_option (filter (\<lambda>f. fileKey f \<noteq> fileKey inputFile)) (inputFiles sendingMessage)\<rparr>"

text \<open>The loop of \<^verbatim>\<open>uploadFiles\<close> over \<^verbatim>\<open>inputFiles\<close> from index \<open>i\<close>; the files still to
  send are the list, so \<^verbatim>\<open>final\<close> holds when no file follows.\<close>

fun uploadLoop ::
  "Ext \<Rightarrow> InputMessage \<Rightarrow> Folder \<Rightarrow> int \<Rightarrow> nat \<Rightarrow> InputFile list \<Rightarrow> (nat \<Rightarrow> FileScript)
    \<Rightarrow> SendingMessages \<Rightarrow> InputMessage option outcome \<times> SendingMessages \<times> upload_event list" where
  "uploadLoop x message folder parentId i [] scripts s = (Returned (Some message), s, [])"
| "uploadLoop x message folder parentId i (inputFile # rest) scripts s =
     (case getSendingMessage s (id_folder folder) of
        None \<Rightarrow> (Returned None, s, [])
      | Some _ \<Rightarrow>
          let final = (rest = []) in
            (case uploadFile folder inputFile (mainScript (scripts i)) (thumbScript (scripts i)) s of
               (Threw message, s1, events) \<Rightarrow> (Threw message, s1, events)
             | (Pending, s1, events) \<Rightarrow> (Pending, s1, events)
             | (Returned None, s1, events) \<Rightarrow>
                 (case uploadLoop x message folder parentId (Suc i) rest scripts s1 of
                    (result, s', events') \<Rightarrow> (result, s', events @ events'))
             | (Returned (Some uploaded'), s1, events) \<Rightarrow>
                 let creating =
                       CreateMessage (generateFileMessageMark x parentId) uploaded' folder final
                 in
                   (case created (scripts i) of
                      None \<Rightarrow> (Pending, s1, events @ [creating])
                    | Some (Rejected message) \<Rightarrow>
                        (Threw message, createDuring (scripts i) s1, events @ [creating])
                    | Some (Resolved success) \<Rightarrow>
                        let s2 = createDuring (scripts i) s1 in
                          if success \<and> \<not> final then
                            (case getSendingMessage s2 (id_folder folder) of
                               None \<Rightarrow> (Returned None, s2, events @ [creating])
                             | Some sendingMessage \<Rightarrow>
                                 let updatedMessage = withoutFile inputFile sendingMessage;
                                     s3 = setSendingMessage (id_folder folder) updatedMessage s2
                                 in
                                   (case uploadLoop x message folder parentId (Suc i) rest scripts s3 of
                                      (result, s', events') \<Rightarrow>
                                        (result, s', events @ creating # events')))
                          else
                            (case uploadLoop x message folder parentId (Suc i) rest scripts s2 of
                               (result, s', events') \<Rightarrow>
                                 (result, s', events @ creating # events')))))"

definition uploadFiles ::
  "Ext \<Rightarrow> InputMessage \<Rightarrow> Folder \<Rightarrow> int \<Rightarrow> (nat \<Rightarrow> FileScript) \<Rightarrow> SendingMessages
    \<Rightarrow> InputMessage option outcome \<times> SendingMessages \<times> upload_event list" where
  "uploadFiles x message folder parentId scripts s =
     uploadLoop x message folder parentId 0
       (case inputFiles message of None \<Rightarrow> [] | Some files \<Rightarrow> files) scripts s"

subsection \<open>The registry of downloads\<close>

record DownloadingFile =
  id_file :: string
  size_file :: int
  type :: string
  fileKey :: "string option"
  downloading :: "bool option"
  lastPart :: "int option"
  partsCount :: "int option"
  partSize :: "int option"
  progress :: "int option"
  dc_id :: "int option"
  access_hash :: "string option"
  file_reference :: "bytes option"
  sizeType :: "string option"
  originalSizeType :: "string option"

record StreamingFile = DownloadingFile +
  folder :: "Folder option"
  messageId :: "int option"
  streaming :: "bool option"

record Media =
  id_media :: string
  file_reference_media :: "bytes option"

datatype Message = Message (media: "Media option") (mediaMessages: "Message list option")

text \<open>
  The state of \<^verbatim>\<open>store\<close> this module reads and writes. Modelled from the spec:
  \<^verbatim>\<open>getActiveFolder\<close> (from \<^verbatim>\<open>./folders\<close>) supplies the folder context; it is the field
  \<open>activeFolder\<close>.
\<close>

record Store =
  activeFolder :: "Folder option"
  downloadingFiles :: "string \<rightharpoonup> DownloadingFile"
  streamingFiles :: "string \<rightharpoonup> StreamingFile"
  foldersMessages :: "int \<rightharpoonup> (int \<rightharpoonup> Message)"

definition generateFileKey :: "Ext \<Rightarrow> 'a DownloadingFile_scheme \<Rightarrow> string" where
  "generateFileKey x file = fileKeyFrom x (id_file file) (size_file file) (sizeType file)"

definition getDownloadingFile :: "Ext \<Rightarrow> Store \<Rightarrow> 'a DownloadingFile_scheme \<Rightarrow> DownloadingFile option" where
  "getDownloadingFile x s file = downloadingFiles s (generateFileKey x file)"

definition setDownloadingFile :: "Ext \<Rightarrow> DownloadingFile \<Rightarrow> Store \<Rightarrow> Store" where
  "setDownloadingFile x file s =
     s\<lparr>downloadingFiles := (downloadingFiles s)(generateFileKey x file \<mapsto> file)\<rparr>"

definition pauseDownloadingFile :: "Ext \<Rightarrow> 'a DownloadingFile_scheme \<Rightarrow> Store \<Rightarrow> Store" where
  "pauseDownloadingFile x file s =
     (case getDownloadingFile x s file of
        None \<Rightarrow> s
      | Some downloadingFile \<Rightarrow>
          if downloading downloadingFile = Some True
          then setDownloadingFile x (downloadingFile\<lparr>downloading := Some False\<rparr>) s
          else s)"

definition resetDownloadingFile :: "Ext \<Rightarrow> 'a DownloadingFile_scheme \<Rightarrow> Store \<Rightarrow> Store" where
  "resetDownloadingFile x file s =
     (if generateFileKey x file \<notin> dom (downloadingFiles s) then s
      else s\<lparr>downloadingFiles := (downloadingFiles s)(generateFileKey x file := None)\<rparr>)"

subsection \<open>The download lanes: \<^verbatim>\<open>downloadingQueue\<close>\<close>

definition DOWNLOADING_PART_SIZE :: "Ext \<Rightarrow> int" where
  "DOWNLOADING_PART_SIZE x = KB512 x"

definition MAX_DOWNLOADING_COUNT :: nat where
  "MAX_DOWNLOADING_COUNT = 4"

text \<open>The object \<^verbatim>\<open>queues\<close> has the keys \<open>0, \<dots>, MAX_DOWNLOADING_COUNT - 1\<close>; a lane is the
  list of the tasks enqueued on it, oldest first.\<close>

record 'a DownloadingQueue =
  nextIndex :: nat
  queues :: "nat \<rightharpoonup> 'a list"

definition downloadingQueue :: "'a DownloadingQueue" where
  "downloadingQueue =
     \<lparr>nextIndex = 0,
      queues = fold (\<lambda>index queue. queue(index \<mapsto> [])) [0..<MAX_DOWNLOADING_COUNT] Map.empty\<rparr>"

datatype error = TypeError

text \<open>\<^verbatim>\<open>add\<close>: \<^verbatim>\<open>this.queues[currentIndex].enqueue\<close> throws when the object has no such
  key.\<close>

definition add :: "'a \<Rightarrow> 'a DownloadingQueue \<Rightarrow> error + 'a DownloadingQueue" where
  "add fn q =
     (let currentIndex = nextIndex q in
        (case queues q currentIndex of
           None \<Rightarrow> Inl TypeError
         | Some lane \<Rightarrow>
             Inr (q\<lparr>queues := (queues q)(currentIndex \<mapsto> lane @ [fn]),
                    nextIndex :=
                      (if currentIndex = MAX_DOWNLOADING_COUNT - 1 then 0 else currentIndex + 1)\<rparr>)))"

text \<open>A sequence of \<^verbatim>\<open>add\<close> calls, stopping at the first that throws.\<close>

fun addAll :: "'a list \<Rightarrow> 'a DownloadingQueue \<Rightarrow> error + 'a DownloadingQueue" where
  "addAll [] q = Inr q"
| "addAll (fn # fns) q = (case add fn q of Inl e \<Rightarrow> Inl e | Inr q' \<Rightarrow> addAll fns q')"

text \<open>The tasks waiting on a lane, and the lane each \<^verbatim>\<open>add\<close> of a sequence reads into
  \<^verbatim>\<open>currentIndex\<close>.\<close>

definition lane :: "'a DownloadingQueue \<Rightarrow> nat \<Rightarrow> 'a list" where
  "lane q l = (case queues q l of None \<Rightarrow> [] | Some tasks \<Rightarrow> tasks)"

fun assignedLanes :: "'a list \<Rightarrow> 'a DownloadingQueue \<Rightarrow> nat list" where
  "assignedLanes [] q = []"
| "assignedLanes (fn # fns) q =
     (case add fn q of Inl e \<Rightarrow> [] | Inr q' \<Rightarrow> nextIndex q # assignedLanes fns q')"

text \<open>A queue object with all its lanes, whatever waits on them.\<close>

definition hasLanes :: "'a DownloadingQueue \<Rightarrow> bool" where
  "hasLanes q =
     (nextIndex q < MAX_DOWNLOADING_COUNT
      \<and> list_all (\<lambda>l. queues q l \<noteq> None) [0..<MAX_DOWNLOADING_COUNT])"

subsection \<open>Queued downloads: \<^verbatim>\<open>downloadFile\<close>\<close>

text \<open>What the task closure of \<^verbatim>\<open>downloadFile\<close> captures.\<close>

record DownloadTask =
  taskFolder :: "Folder option"
  taskMessageId :: int
  taskFile :: DownloadingFile

text \<open>The synchronous part of \<^verbatim>\<open>downloadFile\<close>, up to and including
  \<^verbatim>\<open>downloadingQueue.add\<close>.\<close>

definition downloadFile ::
  "Ext \<Rightarrow> int \<Rightarrow> DownloadingFile \<Rightarrow> Store \<Rightarrow> DownloadTask DownloadingQueue
    \<Rightarrow> unit outcome \<times> Store \<times> DownloadTask DownloadingQueue" where
  "downloadFile x messageId' file s q =
     (let folder' = activeFolder s;
          downloadingFile =
            (case getDownloadingFile x s file of Some found \<Rightarrow> found | None \<Rightarrow> file)
      in
        if truthy (fileKey downloadingFile) \<or> downloading downloadingFile = Some True
        then (Returned (), s, q)
        else
          let downloadingFile2 =
                downloadingFile\<lparr>file_reference := file_reference file,
                                dc_id := dc_id file,
                                access_hash := access_hash file,
                                sizeType := sizeType file,
                                downloading := Some True\<rparr>;
              downloadingFile3 =
                (if \<not> truthyNum (lastPart downloadingFile2) then
                   downloadingFile2\<lparr>partSize := Some (DOWNLOADING_PART_SIZE x),
                                    partsCount :=
                                      Some (Math_ceil (real_of_int (size_file file)
                                                        / real_of_int (DOWNLOADING_PART_SIZE x)))\<rparr>
                 else downloadingFile2);
              s' = setDownloadingFile x downloadingFile3 s
          in
            (case add \<lparr>taskFolder = folder', taskMessageId = messageId', taskFile = file\<rparr> q of
               Inl e \<Rightarrow> (Threw ''TypeError'', s', q)
             | Inr q' \<Rightarrow> (Returned (), s', q')))"

text \<open>The request object of \<^verbatim>\<open>api.downloadFilePart\<close>.\<close>

record PartRequest =
  req_id :: string
  req_partSize :: int
  req_offsetSize :: int
  req_dc_id :: "int option"
  req_access_hash :: "string option"
  req_file_reference :: "bytes option"
  req_sizeType :: "string option"
  req_originalSizeType :: "string option"
  req_precise :: "bool option"

text \<open>The effectful calls of a download task and of a stream read, in order.\<close>

datatype download_event =
    DownloadFilePart PartRequest
  | PauseDownloadingFile DownloadingFile
  | RefreshMessage "Folder option" int
  | AddBytes string bytes
  | TransferBytesToFile string string
  | SetDownloadingFile DownloadingFile
  | SetStreamingFile StreamingFile

text \<open>The defaults of the task's destructuring: \<^verbatim>\<open>lastPart = -1\<close>, \<^verbatim>\<open>partsCount = 0\<close>,
  \<^verbatim>\<open>partSize = 0\<close>.\<close>

definition lastPartOr :: "DownloadingFile \<Rightarrow> int" where
  "lastPartOr d = (case lastPart d of None \<Rightarrow> - 1 | Some n \<Rightarrow> n)"

definition partsCountOr :: "DownloadingFile \<Rightarrow> int" where
  "partsCountOr d = (case partsCount d of None \<Rightarrow> 0 | Some n \<Rightarrow> n)"

definition partSizeOr :: "DownloadingFile \<Rightarrow> int" where
  "partSizeOr d = (case partSize d of None \<Rightarrow> 0 | Some n \<Rightarrow> n)"

text \<open>The request for a part, from the constants \<open>entry\<close> the task destructured when it
  started.\<close>

definition partRequest :: "DownloadingFile \<Rightarrow> int \<Rightarrow> PartRequest" where
  "partRequest entry part =
     \<lparr>req_id = id_file entry,
      req_partSize = partSizeOr entry,
      req_offsetSize = part * partSizeOr entry,
      req_dc_id = dc_id entry,
      req_access_hash = access_hash entry,
      req_file_reference = file_reference entry,
      req_sizeType = sizeType entry,
      req_originalSizeType = originalSizeType entry,
      req_precise = None\<rparr>"

text \<open>One part request's await: what happened to the store while it was in flight, and
  how the transport settled it.\<close>

record PartResponse =
  during :: "Store \<Rightarrow> Store"
  response :: "bytes settled"

text \<open>
  What the task does with a part it has received (the re-read entry is \<open>downloadingFile\<close>):
  the MIME type of the assembled file, the key \<^verbatim>\<open>transferBytesToFile\<close> gives on the last
  part (\<^verbatim>\<open>undefined\<close> before it), and the entry it passes to \<^verbatim>\<open>setDownloadingFile\<close>.
\<close>

definition mimeOf :: "DownloadingFile \<Rightarrow> DownloadingFile \<Rightarrow> string" where
  "mimeOf entry downloadingFile =
     (let isImage = (prefix ''image'' (type downloadingFile) \<or> truthy (sizeType entry))
      in if isImage then ''image/jpeg'' else type downloadingFile)"

definition assembledKey :: "Ext \<Rightarrow> DownloadingFile \<Rightarrow> int \<Rightarrow> DownloadingFile \<Rightarrow> string option" where
  "assembledKey x entry part downloadingFile =
     (let isLastPart = (part = partsCountOr entry - 1) in
        if isLastPart
        then transferBytesToFile x (generateFileKey x downloadingFile) (mimeOf entry downloadingFile)
        else None)"

definition writtenEntry :: "Ext \<Rightarrow> DownloadingFile \<Rightarrow> int \<Rightarrow> DownloadingFile \<Rightarrow> DownloadingFile" where
  "writtenEntry x entry part downloadingFile =
     (let prog = partProgress part (partsCountOr entry);
          fileKey' = assembledKey x entry part downloadingFile
      in
        if truthy fileKey'
        then downloadingFile\<lparr>fileKey := fileKey',
                             downloading := Some False,
                             lastPart := Some part,
                             progress := Some prog\<rparr>
        else downloadingFile\<lparr>lastPart := Some part, progress := Some prog\<rparr>)"

text \<open>
  The loop \<^verbatim>\<open>for (let part = lastPart + 1; part < partsCount; part++)\<close> of the task, from
  \<open>part\<close> on; \<open>entry\<close> holds the constants destructured before the loop. The handler of
  \<^verbatim>\<open>catch\<close> sees the entry read before the request, since the variable is assigned again
  only after the await.
\<close>

fun partLoop ::
  "Ext \<Rightarrow> DownloadTask \<Rightarrow> DownloadingFile \<Rightarrow> int \<Rightarrow> PartResponse list \<Rightarrow> Store
    \<Rightarrow> loop_exit \<times> Store \<times> download_event list" where
  "partLoop x task entry part replies s =
     (if \<not> part < partsCountOr entry then (Completed, s, [])
      else
        (case getDownloadingFile x s (taskFile task) of
           None \<Rightarrow> (Aborted, s, [])
         | Some downloadingFile \<Rightarrow>
             if downloading downloadingFile = Some False then (Aborted, s, [])
             else
               let isLastPart = (part = partsCountOr entry - 1);
                   request = DownloadFilePart (partRequest entry part)
               in
                 (case replies of
                    [] \<Rightarrow> (Suspended, s, [request])
                  | r # rest \<Rightarrow>
                      (case response r of
                         Rejected message \<Rightarrow>
                           if message = ''FILE_REFERENCE_EXPIRED'' then
                             (Aborted, pauseDownloadingFile x downloadingFile (during r s),
                              [request, PauseDownloadingFile downloadingFile,
                               RefreshMessage (taskFolder task) (taskMessageId task)])
                           else (Aborted, during r s, [request])
                       | Resolved bytes' \<Rightarrow>
                           (case getDownloadingFile x (during r s) (taskFile task) of
                              None \<Rightarrow> (Aborted, during r s, [request])
                            | Some downloadingFile' \<Rightarrow>
                                let key = generateFileKey x downloadingFile';
                                    written = writtenEntry x entry part downloadingFile'
                                in
                                  (case partLoop x task entry (part + 1) rest
                                          (setDownloadingFile x written (during r s)) of
                                     (exit, s', events) \<Rightarrow>
                                       (exit, s',
                                        [request, AddBytes key bytes']
                                          @ (if isLastPart
                                             then [TransferBytesToFile key
                                                     (mimeOf entry downloadingFile')]
                                             else [])
                                          @ [SetDownloadingFile written] @ events)))))))"

text \<open>The task \<^verbatim>\<open>downloadFile\<close> enqueues, run when its lane reaches it.\<close>

definition downloadTask ::
  "Ext \<Rightarrow> DownloadTask \<Rightarrow> PartResponse list \<Rightarrow> Store
    \<Rightarrow> loop_exit \<times> Store \<times> download_event list" where
  "downloadTask x task replies s =
     (case getDownloadingFile x s (taskFile task) of
        None \<Rightarrow> (Aborted, s, [])
      | Some entry \<Rightarrow> partLoop x task entry (lastPartOr entry + 1) replies s)"

subsection \<open>Stream reads: \<^verbatim>\<open>downloadStreamFilePart\<close>, \<^verbatim>\<open>getFileReference\<close>\<close>










subsection \<open>Reading the lists of calls\<close>

text \<open>The transport requests among the calls of a download task or stream read.\<close>

fun requestsOf :: "download_event list \<Rightarrow> PartRequest list" where
  "requestsOf [] = []"
| "requestsOf (DownloadFilePart request # events) = request # requestsOf events"
| "requestsOf (_ # events) = requestsOf events"

text \<open>The entries a download task passes to \<^verbatim>\<open>setDownloadingFile\<close>.\<close>

fun writesOf :: "download_event list \<Rightarrow> DownloadingFile list" where
  "writesOf [] = []"
| "writesOf (SetDownloadingFile written # events) = written # writesOf events"
| "writesOf (_ # events) = writesOf events"

text \<open>The calls of \<^verbatim>\<open>refreshMessage\<close>.\<close>

fun refreshesOf :: "download_event list \<Rightarrow> (Folder option \<times> int) list" where
  "refreshesOf [] = []"
| "refreshesOf (RefreshMessage folder' messageId' # events) =
     (folder', messageId') # refreshesOf events"
| "refreshesOf (_ # events) = refreshesOf events"


fun sentPartsOf :: "upload_event list \<Rightarrow> int list" where
  "sentPartsOf [] = []"
| "sentPartsOf (UploadFilePart fileParams part bytes' # events) = part # sentPartsOf events"
| "sentPartsOf (_ # events) = sentPartsOf events"



text \<open>The calls a function made and the store it left.\<close>

definition calls :: "'r \<times> 's \<times> 'e list \<Rightarrow> 'e list" where
  "calls result = snd (snd result)"

definition storeAfter :: "'r \<times> 's \<times> 'e list \<Rightarrow> 's" where
  "storeAfter result = fst (snd result)"

definition ended :: "'r \<times> 's \<times> 'e list \<Rightarrow> 'r" where
  "ended result = fst result"

text \<open>A registry in which every entry is stored under its own key, as every entry written
  by \<^verbatim>\<open>setDownloadingFile\<close> is.\<close>

definition keyed :: "Ext \<Rightarrow> Store \<Rightarrow> bool" where
  "keyed x s = (\<forall>key file. downloadingFiles s key = Some file \<longrightarrow> generateFileKey x file = key)"






subsection \<open>Concrete data for the examples\<close>

text \<open>A key function of the shape the spec describes: the id, the size in decimal and
  the size variant, joined by dashes.\<close>

fun decimal :: "nat \<Rightarrow> string" where
  "decimal n =
     (if n < 10 then [''0123456789'' ! n]
      else decimal (n div 10) @ [''0123456789'' ! (n mod 10)])"

definition sampleExt :: Ext where
  "sampleExt =
     \<lparr>fileKeyFrom =
        (\<lambda>id' size' sizeType'.
           id' @ ''-'' @ decimal (nat size')
             @ (case sizeType' of None \<Rightarrow> [] | Some variant \<Rightarrow> ''-'' @ variant)),
      KB512 = 524288,
      transferBytesToFile = (\<lambda>key mime. Some (''blob:'' @ key)),
      generateFileMessageMark = (\<lambda>parentId. ''#'' @ decimal (nat parentId))\<rparr>"

text \<open>A video of 2,000,000 bytes, as a caller passes it to \<^verbatim>\<open>downloadFile\<close>: four parts of
  512 KiB.\<close>

definition sampleFile :: DownloadingFile where
  "sampleFile =
     \<lparr>id_file = ''doc'', size_file = 2000000, type = ''video/mp4'', fileKey = None,
      downloading = None, lastPart = None, partsCount = None, partSize = None,
      progress = None, dc_id = Some 2, access_hash = Some ''hash'',
      file_reference = Some [1], sizeType = None, originalSizeType = None\<rparr>"

text \<open>Its registry entry once \<^verbatim>\<open>downloadFile\<close> has registered it.\<close>

definition sampleEntry :: DownloadingFile where
  "sampleEntry =
     sampleFile\<lparr>downloading := Some True, partSize := Some 524288, partsCount := Some 4\<rparr>"

definition sampleFolder :: Folder where
  "sampleFolder = \<lparr>id_folder = 7\<rparr>"

definition emptyStore :: Store where
  "emptyStore =
     \<lparr>activeFolder = Some sampleFolder, downloadingFiles = Map.empty,
      streamingFiles = Map.empty, foldersMessages = Map.empty\<rparr>"

definition sampleStore :: Store where
  "sampleStore = emptyStore\<lparr>downloadingFiles := [''doc-2000000'' \<mapsto> sampleEntry]\<rparr>"

definition sampleTask :: DownloadTask where
  "sampleTask = \<lparr>taskFolder = Some sampleFolder, taskMessageId = 11, taskFile = sampleFile\<rparr>"

text \<open>A part that arrives while nothing else touches the store, and a request the
  transport rejects because the file reference has expired.\<close>

definition arrives :: PartResponse where
  "arrives = \<lparr>during = (\<lambda>s. s), response = Resolved [0, 1, 2]\<rparr>"

definition expires :: PartResponse where
  "expires = \<lparr>during = (\<lambda>s. s), response = Rejected ''FILE_REFERENCE_EXPIRED''\<rparr>"

text \<open>Parts that arrive after the user paused the download, after the entry was deleted,
  and after something stored a fresh file reference in the entry.\<close>

definition pausedMeanwhile :: PartResponse where
  "pausedMeanwhile =
     \<lparr>during = pauseDownloadingFile sampleExt sampleFile, response = Resolved [0, 1, 2]\<rparr>"

definition deletedMeanwhile :: PartResponse where
  "deletedMeanwhile =
     \<lparr>during = resetDownloadingFile sampleExt sampleFile, response = Resolved [0, 1, 2]\<rparr>"

definition refreshedMeanwhile :: PartResponse where
  "refreshedMeanwhile =
     \<lparr>during = (\<lambda>s. case getDownloadingFile sampleExt s sampleFile of
                      None \<Rightarrow> s
                    | Some found \<Rightarrow>
                        setDownloadingFile sampleExt (found\<lparr>file_reference := Some [9]\<rparr>) s),
      response = Resolved [0, 1, 2]\<rparr>"

text \<open>Two staged files, the first with a thumbnail, and the pending message of folder 7
  that holds them.\<close>

definition photo :: InputFile where
  "photo =
     \<lparr>InputFile.fileKey = Some ''photo'', thumbFileKey = Some ''photo-thumb'',
      InputFile.progress = None, w = Some 640, h = Some 480, duration = None\<rparr>"

definition clip :: InputFile where
  "clip =
     \<lparr>InputFile.fileKey = Some ''clip'', thumbFileKey = None,
      InputFile.progress = None, w = Some 640, h = Some 480, duration = Some 12\<rparr>"

definition batch :: InputMessage where
  "batch = \<lparr>inputFiles = Some [photo, clip]\<rparr>"

definition pending :: SendingMessages where
  "pending = [7 \<mapsto> batch]"

text \<open>Upload parameters of three parts, and of a single part.\<close>

definition threeParts :: FileParams where
  "threeParts =
     \<lparr>fileId = ''1001'', fileName = ''photo.jpg'', fileType = ''image/jpeg'', isLarge = False,
      FileInfo.partsCount = 3, FileParams.partSize = 524288, lastPartSize = 1000\<rparr>"

definition onePart :: FileParams where
  "onePart =
     \<lparr>fileId = ''1002'', fileName = ''thumb.jpg'', fileType = ''image/jpeg'', isLarge = False,
      FileInfo.partsCount = 1, FileParams.partSize = 524288, lastPartSize = 2000\<rparr>"

text \<open>A part that is read and sent while nothing else happens, and one during whose
  upload the user cancels the pending message.\<close>

definition sent :: PartReply where
  "sent =
     \<lparr>bytesDuring = (\<lambda>s. s), filePartBytes = Some [0, 1, 2], uploadDuring = (\<lambda>s. s),
      uploaded = Resolved ()\<rparr>"

definition cancelledMeanwhile :: PartReply where
  "cancelledMeanwhile =
     \<lparr>bytesDuring = (\<lambda>s. s), filePartBytes = Some [0, 1, 2], uploadDuring = (\<lambda>s. s(7 := None)),
      uploaded = Resolved ()\<rparr>"

definition photoScript :: KeyScript where
  "photoScript =
     \<lparr>fileMeta = Some ''photo.jpg'', prepareDuring = (\<lambda>s. s),
      prepared = Some (Resolved threeParts), parts = [sent, sent, sent]\<rparr>"

definition thumbScript' :: KeyScript where
  "thumbScript' =
     \<lparr>fileMeta = Some ''thumb.jpg'', prepareDuring = (\<lambda>s. s),
      prepared = Some (Resolved onePart), parts = [sent]\<rparr>"

definition clipScript :: KeyScript where
  "clipScript =
     \<lparr>fileMeta = Some ''clip.mp4'', prepareDuring = (\<lambda>s. s),
      prepared = Some (Resolved threeParts), parts = [cancelledMeanwhile, sent, sent]\<rparr>"

definition noScript :: KeyScript where
  "noScript =
     \<lparr>fileMeta = None, prepareDuring = (\<lambda>s. s), prepared = None, parts = []\<rparr>"

text \<open>The batch of the two files: the first is sent and its message created; the pending
  message is cancelled while the first part of the second is uploaded.\<close>

definition batchScripts :: "nat \<Rightarrow> FileScript" where
  "batchScripts i =
     (if i = 0 then
        \<lparr>mainScript = photoScript, thumbScript = thumbScript', createDuring = (\<lambda>s. s),
         created = Some (Resolved True)\<rparr>
      else
        \<lparr>mainScript = clipScript, thumbScript = noScript, createDuring = (\<lambda>s. s),
         created = Some (Resolved True)\<rparr>)"











section \<open>Properties\<close>

subsection \<open>Lists of calls\<close>

declare partLoop.simps [simp del]
declare decimal.simps [simp del]

lemma requestsOf_append: "requestsOf (xs @ ys) = requestsOf xs @ requestsOf ys"
  by (induction xs rule: requestsOf.induct) simp_all

lemma writesOf_append: "writesOf (xs @ ys) = writesOf xs @ writesOf ys"
  by (induction xs rule: writesOf.induct) simp_all


lemma upt_shift: "map f [0..<Suc n] = f 0 # map (\<lambda>k. f (Suc k)) [0..<n]"
proof -
  have "[0..<Suc n] = 0 # map Suc [0..<n]"
    by (simp add: upt_conv_Cons map_Suc_upt del: upt_Suc)
  then show ?thesis by (simp add: comp_def del: upt_Suc)
qed

subsection \<open>The part loop, one iteration at a time\<close>



lemma partLoop_suspended:
  assumes "part < partsCountOr entry" "getDownloadingFile x s (taskFile task) = Some d"
    "downloading d \<noteq> Some False"
  shows "partLoop x task entry part [] s = (Suspended, s, [DownloadFilePart (partRequest entry part)])"
  using assms by (subst partLoop.simps) (simp add: Let_def)

lemma partLoop_expired:
  assumes "part < partsCountOr entry" "getDownloadingFile x s (taskFile task) = Some d"
    "downloading d \<noteq> Some False" "response r = Rejected ''FILE_REFERENCE_EXPIRED''"
  shows "partLoop x task entry part (r # rest) s =
           (Aborted, pauseDownloadingFile x d (during r s),
            [DownloadFilePart (partRequest entry part), PauseDownloadingFile d,
             RefreshMessage (taskFolder task) (taskMessageId task)])"
  using assms by (subst partLoop.simps) (simp add: Let_def)

lemma partLoop_rejected:
  assumes "part < partsCountOr entry" "getDownloadingFile x s (taskFile task) = Some d"
    "downloading d \<noteq> Some False" "response r = Rejected message"
    "message \<noteq> ''FILE_REFERENCE_EXPIRED''"
  shows "partLoop x task entry part (r # rest) s =
           (Aborted, during r s, [DownloadFilePart (partRequest entry part)])"
  using assms by (subst partLoop.simps) (simp add: Let_def)

lemma partLoop_vanished:
  assumes "part < partsCountOr entry" "getDownloadingFile x s (taskFile task) = Some d"
    "downloading d \<noteq> Some False" "response r = Resolved bytes'"
    "getDownloadingFile x (during r s) (taskFile task) = None"
  shows "partLoop x task entry part (r # rest) s =
           (Aborted, during r s, [DownloadFilePart (partRequest entry part)])"
  using assms by (subst partLoop.simps) (simp add: Let_def)

lemma partLoop_received:
  assumes "part < partsCountOr entry" "getDownloadingFile x s (taskFile task) = Some d"
    "downloading d \<noteq> Some False" "response r = Resolved bytes'"
    "getDownloadingFile x (during r s) (taskFile task) = Some d'"
  shows "partLoop x task entry part (r # rest) s =
           (case partLoop x task entry (part + 1) rest
                   (setDownloadingFile x (writtenEntry x entry part d') (during r s)) of
              (exit, s', events) \<Rightarrow>
                (exit, s',
                 [DownloadFilePart (partRequest entry part), AddBytes (generateFileKey x d') bytes']
                   @ (if part = partsCountOr entry - 1
                      then [TransferBytesToFile (generateFileKey x d') (mimeOf entry d')] else [])
                   @ [SetDownloadingFile (writtenEntry x entry part d')] @ events))"
  using assms by (subst partLoop.simps) (simp add: Let_def)

lemma partLoop_received_calls:
  assumes "part < partsCountOr entry" "getDownloadingFile x s (taskFile task) = Some d"
    "downloading d \<noteq> Some False" "response r = Resolved bytes'"
    "getDownloadingFile x (during r s) (taskFile task) = Some d'"
  shows "calls (partLoop x task entry part (r # rest) s) =
           [DownloadFilePart (partRequest entry part), AddBytes (generateFileKey x d') bytes']
             @ (if part = partsCountOr entry - 1
                then [TransferBytesToFile (generateFileKey x d') (mimeOf entry d')] else [])
             @ [SetDownloadingFile (writtenEntry x entry part d')]
             @ calls (partLoop x task entry (part + 1) rest
                  (setDownloadingFile x (writtenEntry x entry part d') (during r s)))"
  by (simp add: partLoop_received [OF assms] calls_def split: prod.splits)


lemma partLoop_received_ended:
  assumes "part < partsCountOr entry" "getDownloadingFile x s (taskFile task) = Some d"
    "downloading d \<noteq> Some False" "response r = Resolved bytes'"
    "getDownloadingFile x (during r s) (taskFile task) = Some d'"
  shows "ended (partLoop x task entry part (r # rest) s) =
           ended (partLoop x task entry (part + 1) rest
             (setDownloadingFile x (writtenEntry x entry part d') (during r s)))"
  by (simp add: partLoop_received [OF assms] ended_def split: prod.splits)

lemma writtenEntry_lastPart: "lastPart (writtenEntry x entry part d) = Some part"
  by (simp add: writtenEntry_def Let_def)

lemma writtenEntry_progress:
  "progress (writtenEntry x entry part d) = Some (partProgress part (partsCountOr entry))"
  by (simp add: writtenEntry_def Let_def)




lemma partLoop_idle:
  assumes "\<not> (part < partsCountOr entry
      \<and> (\<exists>d. getDownloadingFile x s (taskFile task) = Some d \<and> downloading d \<noteq> Some False))"
  shows "calls (partLoop x task entry part replies s) = []"
  using assms by (subst partLoop.simps) (auto simp: calls_def split: option.splits)

subsection \<open>The shape of a run's calls\<close>

lemma partLoop_shape:
  "\<exists>n m. requestsOf (calls (partLoop x task entry part replies s))
            = map (\<lambda>k. partRequest entry (part + int k)) [0..<n]
        \<and> map lastPart (writesOf (calls (partLoop x task entry part replies s)))
            = map (\<lambda>k. Some (part + int k)) [0..<m]
        \<and> map progress (writesOf (calls (partLoop x task entry part replies s)))
            = map (\<lambda>k. Some (partProgress (part + int k) (partsCountOr entry))) [0..<m]
        \<and> m \<le> n \<and> n \<le> Suc m
        \<and> int n \<le> max 0 (partsCountOr entry - part) \<and> n \<le> Suc (length replies)"
  (is "\<exists>n m. ?shape part replies s n m")
proof (induction replies arbitrary: part s)
  case Nil
  show ?case
  proof (cases "part < partsCountOr entry
      \<and> (\<exists>d. getDownloadingFile x s (taskFile task) = Some d \<and> downloading d \<noteq> Some False)")
    case True
    then have "?shape part [] s 1 0"
      by (auto simp: partLoop_suspended calls_def)
    then show ?thesis by blast
  next
    case False
    then have "calls (partLoop x task entry part [] s) = []"
      by (rule partLoop_idle)
    then have "?shape part [] s 0 0" by simp
    then show ?thesis by blast
  qed
next
  case (Cons r rest)
  show ?case
  proof (cases "part < partsCountOr entry
      \<and> (\<exists>d. getDownloadingFile x s (taskFile task) = Some d \<and> downloading d \<noteq> Some False)")
    case False
    then have "calls (partLoop x task entry part (r # rest) s) = []"
      by (rule partLoop_idle)
    then have "?shape part (r # rest) s 0 0" by simp
    then show ?thesis by blast
  next
    case True
    then obtain d where running: "part < partsCountOr entry"
        "getDownloadingFile x s (taskFile task) = Some d" "downloading d \<noteq> Some False"
      by blast
    show ?thesis
    proof (cases "response r")
      case (Rejected message)
      with running have "?shape part (r # rest) s 1 0"
        by (cases "message = ''FILE_REFERENCE_EXPIRED''")
           (simp_all add: partLoop_expired partLoop_rejected calls_def)
      then show ?thesis by blast
    next
      case (Resolved bytes')
      show ?thesis
      proof (cases "getDownloadingFile x (during r s) (taskFile task)")
        case None
        with running Resolved have "?shape part (r # rest) s 1 0"
          by (simp add: partLoop_vanished calls_def)
        then show ?thesis by blast
      next
        case (Some d')
        let ?next = "partLoop x task entry (part + 1) rest
                       (setDownloadingFile x (writtenEntry x entry part d') (during r s))"
        from Cons.IH obtain n m where
          IH: "?shape (part + 1) rest
                 (setDownloadingFile x (writtenEntry x entry part d') (during r s)) n m"
          by blast
        note step = partLoop_received_calls [OF running Resolved Some, of rest]
        have "?shape part (r # rest) s (Suc n) (Suc m)"
          using IH running(1)
          by (simp add: step requestsOf_append writesOf_append upt_shift add.assoc
                writtenEntry_lastPart writtenEntry_progress del: upt_Suc)
        then show ?thesis by blast
      qed
    qed
  qed
qed

subsection \<open>The lanes\<close>

lemma hasLanes_lookup: "hasLanes q \<Longrightarrow> l < 4 \<Longrightarrow> \<exists>ts. queues q l = Some ts"
  by (auto simp: hasLanes_def MAX_DOWNLOADING_COUNT_def list_all_iff)

lemma add_hasLanes:
  assumes "hasLanes q"
  shows "\<exists>q'. add fn q = Inr q' \<and> hasLanes q'
          \<and> nextIndex q' = (nextIndex q + 1) mod 4
          \<and> (\<forall>l. lane q' l = (if l = nextIndex q then lane q l @ [fn] else lane q l))"
proof -
  have i: "nextIndex q < 4" using assms by (simp add: hasLanes_def MAX_DOWNLOADING_COUNT_def)
  then obtain ts where ts: "queues q (nextIndex q) = Some ts"
    using hasLanes_lookup [OF assms] by blast
  have all: "list_all (\<lambda>l. queues q l \<noteq> None) [0..<4]"
    using assms by (simp add: hasLanes_def MAX_DOWNLOADING_COUNT_def)
  show ?thesis
    using i ts all
    by (auto simp: add_def Let_def hasLanes_def MAX_DOWNLOADING_COUNT_def lane_def list_all_iff)
qed

lemma upt_filter_shift:
  "map ((!) (x # xs)) (filter P [0..<Suc (length xs)])
     = (if P 0 then [x] else []) @ map ((!) xs) (filter (\<lambda>k. P (Suc k)) [0..<length xs])"
proof -
  have "[0..<Suc (length xs)] = 0 # map Suc [0..<length xs]"
    by (simp add: upt_conv_Cons map_Suc_upt del: upt_Suc)
  then show ?thesis by (simp add: filter_map comp_def del: upt_Suc)
qed

lemma addAll_lanes:
  "hasLanes q \<Longrightarrow>
     \<exists>q'. addAll fns q = Inr q' \<and> hasLanes q'
        \<and> nextIndex q' = (nextIndex q + length fns) mod 4
        \<and> (\<forall>l. lane q' l
              = lane q l @ map ((!) fns) (filter (\<lambda>k. (nextIndex q + k) mod 4 = l) [0..<length fns]))"
proof (induction fns arbitrary: q)
  case Nil
  then show ?case by (simp add: hasLanes_def MAX_DOWNLOADING_COUNT_def)
next
  case (Cons fn fns)
  from add_hasLanes [OF Cons.prems, of fn] obtain q1 where
    q1: "add fn q = Inr q1" "hasLanes q1" "nextIndex q1 = (nextIndex q + 1) mod 4"
      "\<forall>l. lane q1 l = (if l = nextIndex q then lane q l @ [fn] else lane q l)" by blast
  from Cons.IH [OF q1(2)] obtain q' where
    q': "addAll fns q1 = Inr q'" "hasLanes q'" "nextIndex q' = (nextIndex q1 + length fns) mod 4"
      "\<forall>l. lane q' l
          = lane q1 l @ map ((!) fns) (filter (\<lambda>k. (nextIndex q1 + k) mod 4 = l) [0..<length fns])"
    by blast
  have i: "nextIndex q < 4" using Cons.prems by (simp add: hasLanes_def MAX_DOWNLOADING_COUNT_def)
  have shift: "\<And>k. (Suc (nextIndex q) mod 4 + k) mod 4 = Suc (nextIndex q + k) mod 4"
    by presburger
  have "\<forall>l. lane q' l = lane q l @ map ((!) (fn # fns))
            (filter (\<lambda>k. (nextIndex q + k) mod 4 = l) [0..<length (fn # fns)])"
    using q'(4) q1(3,4) i by (auto simp: upt_filter_shift shift simp del: upt_Suc)
  moreover have "nextIndex q' = (nextIndex q + length (fn # fns)) mod 4"
    using q'(3) q1(3) by (simp add: mod_add_left_eq)
  ultimately show ?case using q1(1) q'(1,2) by simp
qed

lemma assignedLanes_eq:
  "hasLanes q \<Longrightarrow> assignedLanes fns q = map (\<lambda>k. (nextIndex q + k) mod 4) [0..<length fns]"
proof (induction fns arbitrary: q)
  case Nil
  then show ?case by simp
next
  case (Cons fn fns)
  from add_hasLanes [OF Cons.prems, of fn] obtain q1 where
    q1: "add fn q = Inr q1" "hasLanes q1" "nextIndex q1 = (nextIndex q + 1) mod 4" by blast
  have i: "nextIndex q < 4" using Cons.prems by (simp add: hasLanes_def MAX_DOWNLOADING_COUNT_def)
  have "[0..<Suc (length fns)] = 0 # map Suc [0..<length fns]"
    by (simp add: upt_conv_Cons map_Suc_upt del: upt_Suc)
  then show ?case
    using Cons.IH [OF q1(2)] q1(1,3) i by (simp add: mod_add_left_eq comp_def del: upt_Suc)
qed

lemma hasLanes_initial: "hasLanes (downloadingQueue :: 'a DownloadingQueue)"
  by (simp add: hasLanes_def downloadingQueue_def MAX_DOWNLOADING_COUNT_def upt_rec)

subsection \<open>Lists of calls of an upload\<close>

declare uploadParts.simps [simp del]


lemma sentPartsOf_append: "sentPartsOf (xs @ ys) = sentPartsOf xs @ sentPartsOf ys"
  by (induction xs rule: sentPartsOf.induct) simp_all



subsection \<open>The upload loop, one iteration at a time\<close>









subsection \<open>The shape of an upload's calls\<close>


subsection \<open>Progress\<close>



subsection \<open>One key of an upload\<close>






subsection \<open>The store after an undisturbed upload\<close>





subsection \<open>A stream read, one request at a time\<close>









subsection \<open>The shape of a stream read's calls\<close>



subsection \<open>The registry across the operations\<close>

lemma keyed_set: "keyed x s \<Longrightarrow> keyed x (setDownloadingFile x written s)"
  by (simp add: keyed_def setDownloadingFile_def)








lemma keyed_reset: "keyed x s \<Longrightarrow> keyed x (resetDownloadingFile x file s)"
  by (auto simp: keyed_def resetDownloadingFile_def split: if_splits)

lemma keyed_downloadFile:
  "keyed x s \<Longrightarrow> keyed x (fst (snd (downloadFile x messageId' file s q)))"
  by (auto simp: downloadFile_def Let_def keyed_set split: sum.splits)














subsection \<open>The sample data\<close>

lemma decimal_2000000: "decimal 2000000 = ''2000000''"
  by (simp add: decimal.simps)

lemma generateFileKey_fields:
  "id_file d' = id_file d \<Longrightarrow> size_file d' = size_file d \<Longrightarrow> sizeType d' = sizeType d
     \<Longrightarrow> generateFileKey x d' = generateFileKey x d"
  by (simp add: generateFileKey_def)

lemma sampleFile_key: "generateFileKey sampleExt sampleFile = ''doc-2000000''"
  by (simp add: generateFileKey_def sampleExt_def sampleFile_def decimal_2000000)

lemma sampleEntry_key: "generateFileKey sampleExt sampleEntry = ''doc-2000000''"
  using generateFileKey_fields [of sampleEntry sampleFile sampleExt]
  by (simp add: sampleEntry_def sampleFile_key)

lemma sampleStore_entry: "getDownloadingFile sampleExt sampleStore sampleFile = Some sampleEntry"
  by (simp add: getDownloadingFile_def sampleStore_def sampleFile_key)

lemma sampleStore_keyed: "keyed sampleExt sampleStore"
  by (auto simp: keyed_def sampleStore_def sampleEntry_key split: if_splits)

lemma sampleEntry_fields:
  "partsCountOr sampleEntry = 4" "lastPartOr sampleEntry = - 1" "partSizeOr sampleEntry = 524288"
  "downloading sampleEntry = Some True" "fileKey sampleEntry = None"
  by (simp_all add: sampleEntry_def sampleFile_def partsCountOr_def lastPartOr_def partSizeOr_def)

lemmas sample_defs = sampleStore_def emptyStore_def sampleEntry_def sampleFile_def sampleTask_def
  sampleExt_def sampleFolder_def arrives_def expires_def pausedMeanwhile_def deletedMeanwhile_def
  refreshedMeanwhile_def

lemmas registry_defs = getDownloadingFile_def setDownloadingFile_def pauseDownloadingFile_def
  resetDownloadingFile_def generateFileKey_def partsCountOr_def lastPartOr_def partSizeOr_def

lemma sample_run_requests:
  "requestsOf (calls (downloadTask sampleExt sampleTask [refreshedMeanwhile, arrives] sampleStore))
     = [partRequest sampleEntry 0, partRequest sampleEntry 1, partRequest sampleEntry 2]"
  by (simp add: downloadTask_def partLoop.simps calls_def sample_defs registry_defs
        decimal_2000000 Let_def writtenEntry_def assembledKey_def mimeOf_def truthy_def)

lemma sample_run_store:
  "map_option file_reference
     (getDownloadingFile sampleExt
        (storeAfter (downloadTask sampleExt sampleTask [refreshedMeanwhile, arrives] sampleStore))
        sampleFile) = Some (Some [9])"
  by (simp add: downloadTask_def partLoop.simps storeAfter_def sample_defs registry_defs
        decimal_2000000 Let_def writtenEntry_def assembledKey_def mimeOf_def truthy_def)


subsection \<open>Repeated download requests\<close>

lemma downloadFile_skips:
  assumes "getDownloadingFile x s file = Some found"
    and "truthy (fileKey found) \<or> downloading found = Some True"
  shows "downloadFile x messageId' file s q = (Returned (), s, q)"
  using assms by (auto simp: downloadFile_def Let_def)

text \<open>
  Claim C8. A call of \<^verbatim>\<open>downloadFile\<close> for a file whose registry entry has a terminal
  \<^verbatim>\<open>fileKey\<close> or has \<^verbatim>\<open>downloading\<close> set returns at once: the store and the lanes are
  what they were, so nothing is registered and no task is enqueued.
\<close>

theorem downloadFile_noop:
  assumes "getDownloadingFile x s file = Some found"
    and "truthy (fileKey found) \<or> downloading found = Some True"
  shows "downloadFile x messageId' file s q = (Returned (), s, q)"
  using assms by (rule downloadFile_skips)

theorem downloadFile_noop_witness:
  "getDownloadingFile sampleExt sampleStore sampleFile = Some sampleEntry
   \<and> downloading sampleEntry = Some True
   \<and> downloadFile sampleExt 11 sampleFile sampleStore (downloadingQueue :: DownloadTask DownloadingQueue)
       = (Returned (), sampleStore, downloadingQueue)"
  using downloadFile_noop [of sampleExt sampleStore sampleFile sampleEntry 11 downloadingQueue]
  by (simp add: sampleStore_entry sampleEntry_fields)

subsection \<open>Resuming a download\<close>

lemma downloadTask_requests:
  assumes "getDownloadingFile x s (taskFile task) = Some entry"
  shows "\<exists>n. requestsOf (calls (downloadTask x task replies s))
             = map (\<lambda>k. partRequest entry (lastPartOr entry + 1 + int k)) [0..<n]
           \<and> int n \<le> max 0 (partsCountOr entry - (lastPartOr entry + 1))
           \<and> n \<le> Suc (length replies)"
  using assms partLoop_shape [of x task entry "lastPartOr entry + 1" replies s]
  by (auto simp: downloadTask_def)




subsection \<open>The locators of a run\<close>

text \<open>
  Claim C10. Every request of a run carries the id, part size, data centre, access hash,
  file reference and size variants of the entry the task read when it started, whatever
  is written to the registry while the run is suspended. In the example the entry gets
  the file reference \<open>[9]\<close> during the first request; all three requests of the run
  carry \<open>[1]\<close>.
\<close>

theorem locators_read_once:
  assumes "getDownloadingFile x s (taskFile task) = Some entry"
  shows "list_all
           (\<lambda>request. req_id request = id_file entry
              \<and> req_partSize request = partSizeOr entry
              \<and> req_dc_id request = dc_id entry
              \<and> req_access_hash request = access_hash entry
              \<and> req_file_reference request = file_reference entry
              \<and> req_sizeType request = sizeType entry
              \<and> req_originalSizeType request = originalSizeType entry)
           (requestsOf (calls (downloadTask x task replies s)))"
proof -
  from downloadTask_requests [OF assms] obtain n where
    "requestsOf (calls (downloadTask x task replies s))
       = map (\<lambda>k. partRequest entry (lastPartOr entry + 1 + int k)) [0..<n]"
    by blast
  then show ?thesis by (simp add: list_all_iff partRequest_def)
qed

theorem locators_read_once_witness:
  "getDownloadingFile sampleExt sampleStore (taskFile sampleTask) = Some sampleEntry
   \<and> map_option file_reference
       (getDownloadingFile sampleExt
          (storeAfter (downloadTask sampleExt sampleTask [refreshedMeanwhile, arrives] sampleStore))
          sampleFile) = Some (Some [9])
   \<and> length (requestsOf
        (calls (downloadTask sampleExt sampleTask [refreshedMeanwhile, arrives] sampleStore))) = 3
   \<and> list_all
        (\<lambda>request. req_id request = id_file sampleEntry
           \<and> req_partSize request = partSizeOr sampleEntry
           \<and> req_dc_id request = dc_id sampleEntry
           \<and> req_access_hash request = access_hash sampleEntry
           \<and> req_file_reference request = Some [1]
           \<and> req_sizeType request = sizeType sampleEntry
           \<and> req_originalSizeType request = originalSizeType sampleEntry)
        (requestsOf
           (calls (downloadTask sampleExt sampleTask [refreshedMeanwhile, arrives] sampleStore)))"
proof -
  have 1: "getDownloadingFile sampleExt sampleStore (taskFile sampleTask) = Some sampleEntry"
    by (simp add: sampleTask_def sampleStore_entry)
  have 2: "file_reference sampleEntry = Some [1]"
    by (simp add: sampleEntry_def sampleFile_def)
  show ?thesis
    using locators_read_once [OF 1, of "[refreshedMeanwhile, arrives]"] 1 2
    by (simp add: sample_run_requests sample_run_store)
qed

subsection \<open>An expired file reference during a download\<close>

lemma pause_keyed:
  assumes "getDownloadingFile x s file = Some found"
    and "generateFileKey x found = generateFileKey x file"
    and "downloading found \<noteq> None"
  shows "downloadingFiles (pauseDownloadingFile x file s)
           = (downloadingFiles s)(generateFileKey x file \<mapsto> found\<lparr>downloading := Some False\<rparr>)"
proof (cases "downloading found = Some True")
  case True
  with assms show ?thesis
    by (simp add: pauseDownloadingFile_def setDownloadingFile_def generateFileKey_def)
next
  case False
  with assms(3) have "downloading found = Some False" by auto
  then have "found\<lparr>downloading := Some False\<rparr> = found" by simp
  with assms False show ?thesis
    by (auto simp: pauseDownloadingFile_def getDownloadingFile_def)
qed

text \<open>
  Claim C2. When the transport rejects a part request with \<^verbatim>\<open>FILE_REFERENCE_EXPIRED\<close>, the
  run ends with that single request and one call of \<^verbatim>\<open>refreshMessage\<close> for the task's
  folder and message; the registry is the one found when the rejection arrived, with the
  file's entry (registered under its own key, its flag defined) set to
  \<^verbatim>\<open>downloading = false\<close> and \<^verbatim>\<open>lastPart\<close> as it was; and no run for this file, old or new,
  makes any call on the store it leaves. Only \<^verbatim>\<open>downloadFile\<close> sets the flag again.
\<close>

theorem reference_expiry_pauses_download:
  assumes "part < partsCountOr entry"
    and "keyed x s"
    and "getDownloadingFile x s (taskFile task) = Some before"
    and "downloading before \<noteq> Some False"
    and "response r = Rejected ''FILE_REFERENCE_EXPIRED''"
    and "keyed x (during r s)"
    and "getDownloadingFile x (during r s) (taskFile task) = Some found"
    and "downloading found \<noteq> None"
    and "taskFile task' = taskFile task"
  shows "ended (partLoop x task entry part (r # rest) s) = Aborted
         \<and> requestsOf (calls (partLoop x task entry part (r # rest) s)) = [partRequest entry part]
         \<and> refreshesOf (calls (partLoop x task entry part (r # rest) s))
             = [(taskFolder task, taskMessageId task)]
         \<and> downloadingFiles (storeAfter (partLoop x task entry part (r # rest) s))
             = (downloadingFiles (during r s))
                 (generateFileKey x (taskFile task) \<mapsto> found\<lparr>downloading := Some False\<rparr>)
         \<and> map_option lastPart
               (getDownloadingFile x (storeAfter (partLoop x task entry part (r # rest) s))
                  (taskFile task)) = Some (lastPart found)
         \<and> map_option downloading
               (getDownloadingFile x (storeAfter (partLoop x task entry part (r # rest) s))
                  (taskFile task)) = Some (Some False)
         \<and> calls (partLoop x task' entry' part' replies'
               (storeAfter (partLoop x task entry part (r # rest) s))) = []"
proof -
  let ?R = "partLoop x task entry part (r # rest) s"
  have R: "?R = (Aborted, pauseDownloadingFile x before (during r s),
            [DownloadFilePart (partRequest entry part), PauseDownloadingFile before,
             RefreshMessage (taskFolder task) (taskMessageId task)])"
    using assms(1,3,4,5) by (rule partLoop_expired)
  have key: "generateFileKey x before = generateFileKey x (taskFile task)"
    using assms(2,3) by (simp add: keyed_def getDownloadingFile_def)
  have found: "getDownloadingFile x (during r s) before = Some found"
    using assms(7) key by (simp add: getDownloadingFile_def)
  have key': "generateFileKey x found = generateFileKey x before"
    using assms(6,7) key by (simp add: keyed_def getDownloadingFile_def)
  have store: "downloadingFiles (storeAfter ?R)
      = (downloadingFiles (during r s))
          (generateFileKey x (taskFile task) \<mapsto> found\<lparr>downloading := Some False\<rparr>)"
    using pause_keyed [OF found key' assms(8)] key by (simp add: R storeAfter_def)
  then have entry: "getDownloadingFile x (storeAfter ?R) (taskFile task)
      = Some (found\<lparr>downloading := Some False\<rparr>)"
    by (simp add: getDownloadingFile_def)
  have "calls (partLoop x task' entry' part' replies' (storeAfter ?R)) = []"
    using entry assms(9) by (intro partLoop_idle) simp
  with store entry show ?thesis by (simp add: R ended_def calls_def)
qed

theorem reference_expiry_pauses_download_witness:
  "2 < partsCountOr sampleEntry
   \<and> keyed sampleExt sampleStore
   \<and> getDownloadingFile sampleExt sampleStore (taskFile sampleTask) = Some sampleEntry
   \<and> downloading sampleEntry \<noteq> Some False
   \<and> response expires = Rejected ''FILE_REFERENCE_EXPIRED''
   \<and> keyed sampleExt (during expires sampleStore)
   \<and> getDownloadingFile sampleExt (during expires sampleStore) (taskFile sampleTask)
       = Some sampleEntry
   \<and> downloading sampleEntry \<noteq> None
   \<and> ended (partLoop sampleExt sampleTask sampleEntry 2 [expires, arrives] sampleStore) = Aborted
   \<and> requestsOf (calls (partLoop sampleExt sampleTask sampleEntry 2 [expires, arrives] sampleStore))
       = [partRequest sampleEntry 2]
   \<and> refreshesOf (calls (partLoop sampleExt sampleTask sampleEntry 2 [expires, arrives] sampleStore))
       = [(Some sampleFolder, 11)]
   \<and> map_option lastPart
         (getDownloadingFile sampleExt
            (storeAfter (partLoop sampleExt sampleTask sampleEntry 2 [expires, arrives] sampleStore))
            sampleFile) = Some (lastPart sampleEntry)
   \<and> map_option downloading
         (getDownloadingFile sampleExt
            (storeAfter (partLoop sampleExt sampleTask sampleEntry 2 [expires, arrives] sampleStore))
            sampleFile) = Some (Some False)
   \<and> calls (partLoop sampleExt sampleTask sampleEntry 2 [arrives]
         (storeAfter (partLoop sampleExt sampleTask sampleEntry 2 [expires, arrives] sampleStore)))
       = []"
proof -
  have 1: "2 < partsCountOr sampleEntry" by (simp add: sampleEntry_fields)
  have 3: "getDownloadingFile sampleExt sampleStore (taskFile sampleTask) = Some sampleEntry"
    by (simp add: sampleTask_def sampleStore_entry)
  have 4: "downloading sampleEntry \<noteq> Some False" by (simp add: sampleEntry_fields)
  have 5: "response expires = Rejected ''FILE_REFERENCE_EXPIRED''" by (simp add: expires_def)
  have 6: "keyed sampleExt (during expires sampleStore)"
    by (simp add: expires_def sampleStore_keyed)
  have 7: "getDownloadingFile sampleExt (during expires sampleStore) (taskFile sampleTask)
       = Some sampleEntry"
    using 3 by (simp add: expires_def)
  have 8: "downloading sampleEntry \<noteq> None" by (simp add: sampleEntry_fields)
  show ?thesis
    using reference_expiry_pauses_download [OF 1 sampleStore_keyed 3 4 5 6 7 8 refl,
        of "[arrives]" sampleEntry 2 "[arrives]"] 1 3 4 5 6 7 8 sampleStore_keyed
    by (simp add: sampleTask_def)
qed

subsection \<open>Round-robin assignment\<close>

text \<open>
  Claim C4. Whatever waits on the lanes, a sequence of \<^verbatim>\<open>add\<close> calls never throws, its
  \<open>k\<close>-th call reads lane \<open>(nextIndex + k) mod 4\<close> and appends its task to that lane; the
  module's queue starts at lane 0, so five requests go to the lanes \<open>0, 1, 2, 3, 0\<close>.
\<close>

theorem round_robin_lanes:
  assumes "hasLanes q"
  shows "assignedLanes fns q
           = map (\<lambda>k. (nextIndex q + k) mod MAX_DOWNLOADING_COUNT) [0..<length fns]
         \<and> (\<exists>q'. addAll fns q = Inr q'
               \<and> nextIndex q' = (nextIndex q + length fns) mod MAX_DOWNLOADING_COUNT
               \<and> lane q' l
                   = lane q l
                     @ map ((!) fns)
                         (filter (\<lambda>k. (nextIndex q + k) mod MAX_DOWNLOADING_COUNT = l)
                            [0..<length fns]))"
  using assignedLanes_eq [OF assms, of fns] addAll_lanes [OF assms, of fns]
  by (auto simp: MAX_DOWNLOADING_COUNT_def)

theorem round_robin_lanes_witness:
  "hasLanes (downloadingQueue :: nat DownloadingQueue)
   \<and> assignedLanes [10, 11, 12, 13, 14 :: nat] downloadingQueue = [0, 1, 2, 3, 0]
   \<and> (\<exists>q'. addAll [10, 11, 12, 13, 14 :: nat] downloadingQueue = Inr q'
         \<and> nextIndex q' = 1 \<and> lane q' 0 = [10, 14])"
  using round_robin_lanes [OF hasLanes_initial, of "[10, 11, 12, 13, 14 :: nat]" 0] hasLanes_initial
  by (simp add: downloadingQueue_def MAX_DOWNLOADING_COUNT_def upt_rec lane_def)

subsection \<open>Part ranges and progress of an upload\<close>


lemmas upload_defs = uploadKey_def uploadParts.simps checkIsUploading_def onUploadPart_def
  getSendingMessage_def setSendingMessage_def calls_def storeAfter_def ended_def Let_def
  photo_def clip_def batch_def pending_def threeParts_def onePart_def sent_def
  cancelledMeanwhile_def photoScript_def thumbScript'_def clipScript_def noScript_def
  sampleFolder_def








subsection \<open>Progress never decreases within a run\<close>




subsection \<open>The batch loop\<close>




declare uploadLoop.simps [simp del]





lemmas batch_defs = uploadFiles_def withoutFile_def uploadFile_def uploadedFile_def upload_defs batchScripts_def
  sampleExt_def decimal.simps truthy_def truthyNum_def uploadLoop.simps



lemma batch_sent:
  "sentPartsOf (calls (uploadFiles sampleExt batch sampleFolder 5 batchScripts pending))
     = [0, 1, 2, 0, 0]"
  by (simp add: batch_defs sentPartsOf_append)






subsection \<open>An expired file reference during a stream read\<close>









subsection \<open>The order of \<^verbatim>\<open>lastPart\<close>\<close>













end
